theory Spec2Isabelle
  imports Complex_Main
begin

section \<open>Dual number arithmetic: the module \<^verbatim>\<open>dual.py\<close>\<close>

text \<open>
  The module defines one class, \<^verbatim>\<open>dual\<close>, whose instances carry two attributes
  \<^verbatim>\<open>x\<close> (real part) and \<^verbatim>\<open>y\<close> (indeterminate part), both Python floats.

  Modelling decisions:
  \<^item> A Python \<^verbatim>\<open>float\<close> is modelled by an exact \<^typ>\<open>real\<close>. Rounding, overflow,
    underflow, infinities and NaN are outside the model; every statement about
    arithmetic below is a statement about the exact formulas the code evaluates.
  \<^item> What Python raises is a value: every method returns \<open>pyerr + result\<close>, with
    \<open>Inl\<close> the exception. Float division by zero and \<^verbatim>\<open>math.log\<close> of a non-positive
    argument raise, as they do in Python.
  \<^item> An attribute of an instance is set or not; reading one that is not set raises
    \<^verbatim>\<open>AttributeError\<close>.
  \<^item> The third-party function \<^verbatim>\<open>parse.parse\<close> is not part of the module. Its result on
    the module's \<^verbatim>\<open>parseformat\<close> is a parameter \<open>P\<close> of the model: \<open>P s = None\<close> when the
    string does not match, \<open>P s = Some (u, v)\<close> when it matches with fields \<open>u\<close>, \<open>v\<close>.
\<close>

subsection \<open>Exceptions and values\<close>

datatype pyerr =
    DualException string
  | ValueError string
  | ZeroDivisionError
  | NameError string
  | KeyError string
  | IndexError
  | TypeError
  | AttributeError string

text \<open>An instance of class \<^verbatim>\<open>dual\<close>: its attributes \<^verbatim>\<open>x\<close> and \<^verbatim>\<open>y\<close>, each set or not.\<close>

datatype dual = Inst (attr_x: "real option") (attr_y: "real option")

abbreviation Dual :: "real \<Rightarrow> real \<Rightarrow> dual" where
  "Dual u v \<equiv> Inst (Some u) (Some v)"

abbreviation Blank :: dual where
  "Blank \<equiv> Inst None None"

text \<open>The Python values that reach the methods as arguments.\<close>

datatype pyval =
    PInt int
  | PFloat real
  | PStr string
  | PDual dual
  | PBool bool
  | PNone
  | PList "pyval list"

type_synonym parser = "string \<Rightarrow> (real \<times> real) option"

definition bnd :: "pyerr + 'a \<Rightarrow> ('a \<Rightarrow> pyerr + 'b) \<Rightarrow> pyerr + 'b" where
  "bnd m f = (case m of Inl e \<Rightarrow> Inl e | Inr v \<Rightarrow> f v)"

subsection \<open>Module constants\<close>

definition indeterminatechar :: char where
  "indeterminatechar = CHR ''w''"


subsection \<open>Attribute access, \<^verbatim>\<open>re\<close> and \<^verbatim>\<open>im\<close>\<close>

definition get_x :: "dual \<Rightarrow> pyerr + real" where
  "get_x d = (case attr_x d of None \<Rightarrow> Inl (AttributeError ''x'') | Some u \<Rightarrow> Inr u)"

definition get_y :: "dual \<Rightarrow> pyerr + real" where
  "get_y d = (case attr_y d of None \<Rightarrow> Inl (AttributeError ''y'') | Some v \<Rightarrow> Inr v)"

definition re :: "dual \<Rightarrow> pyerr + real" where
  "re self = get_x self"

definition im :: "dual \<Rightarrow> pyerr + real" where
  "im self = get_y self"

text \<open>\<^verbatim>\<open>other.x\<close> and \<^verbatim>\<open>other.y\<close> on an arbitrary Python value: only a \<^verbatim>\<open>dual\<close> can have them.\<close>

definition val_x :: "pyval \<Rightarrow> pyerr + real" where
  "val_x v = (case v of PDual d \<Rightarrow> get_x d | _ \<Rightarrow> Inl (AttributeError ''x''))"

definition val_y :: "pyval \<Rightarrow> pyerr + real" where
  "val_y v = (case v of PDual d \<Rightarrow> get_y d | _ \<Rightarrow> Inl (AttributeError ''y''))"

subsection \<open>Construction: \<^verbatim>\<open>__init__\<close>\<close>

text \<open>\<^verbatim>\<open>type(v) in [int, float]\<close>, with \<^verbatim>\<open>float(v)\<close> when it holds. A \<^verbatim>\<open>bool\<close> has type
  \<^verbatim>\<open>bool\<close>, which is in neither list.\<close>

definition num_of :: "pyval \<Rightarrow> real option" where
  "num_of v = (case v of PInt i \<Rightarrow> Some (of_int i) | PFloat r \<Rightarrow> Some r | _ \<Rightarrow> None)"

text \<open>
  The three branches of \<^verbatim>\<open>__init__\<close> in the order of the source. There is no
  \<^verbatim>\<open>else\<close>: when no branch matches, the constructor returns an instance on which
  no attribute has been set. When \<^verbatim>\<open>parse\<close> returns \<^verbatim>\<open>None\<close>, \<^verbatim>\<open>r[0]\<close> raises
  \<^verbatim>\<open>TypeError\<close>.
\<close>

definition dual_init :: "parser \<Rightarrow> pyval \<Rightarrow> pyval \<Rightarrow> pyerr + dual" where
  "dual_init P xv yv =
     (case xv of
        PStr s \<Rightarrow> (case P s of None \<Rightarrow> Inl TypeError | Some (u, v) \<Rightarrow> Inr (Dual u v))
      | PDual d \<Rightarrow> bnd (re d) (\<lambda>u. bnd (im d) (\<lambda>v. Inr (Dual u v)))
      | _ \<Rightarrow> (case num_of xv of
                None \<Rightarrow> Inr Blank
              | Some u \<Rightarrow> (case num_of yv of None \<Rightarrow> Inr Blank | Some v \<Rightarrow> Inr (Dual u v))))"

text \<open>\<^verbatim>\<open>dual(v)\<close>: the default \<^verbatim>\<open>y = 0.0\<close>; and \<^verbatim>\<open>dual(u, v)\<close> on two floats.\<close>

definition dual1 :: "parser \<Rightarrow> pyval \<Rightarrow> pyerr + dual" where
  "dual1 P v = dual_init P v (PFloat 0)"

definition dual2 :: "parser \<Rightarrow> real \<Rightarrow> real \<Rightarrow> pyerr + dual" where
  "dual2 P u v = dual_init P (PFloat u) (PFloat v)"

text \<open>\<^verbatim>\<open>if not type(other) is dual: other = dual(other)\<close>\<close>

definition as_dual :: "parser \<Rightarrow> pyval \<Rightarrow> pyerr + dual" where
  "as_dual P other = (case other of PDual d \<Rightarrow> Inr d | _ \<Rightarrow> dual1 P other)"

subsection \<open>Comparison\<close>



text \<open>\<^verbatim>\<open>__ne__(self, otherother)\<close>: the parameter is called \<^verbatim>\<open>otherother\<close> and the body
  reads \<^verbatim>\<open>other\<close>, a name bound neither in the method nor at module level, so the
  first expression evaluated, \<^verbatim>\<open>type(other)\<close>, raises \<^verbatim>\<open>NameError\<close>.\<close>

definition dual_ne :: "parser \<Rightarrow> dual \<Rightarrow> pyval \<Rightarrow> pyerr + bool" where
  "dual_ne P self otherother = Inl (NameError ''other'')"

definition dual_lt :: "parser \<Rightarrow> dual \<Rightarrow> pyval \<Rightarrow> pyerr + bool" where
  "dual_lt P self other =
     bnd (as_dual P other) (\<lambda>ot. bnd (get_x self) (\<lambda>x1. bnd (get_x ot) (\<lambda>x2. Inr (x1 < x2))))"

definition dual_le :: "parser \<Rightarrow> dual \<Rightarrow> pyval \<Rightarrow> pyerr + bool" where
  "dual_le P self other =
     bnd (as_dual P other) (\<lambda>ot. bnd (get_x self) (\<lambda>x1. bnd (get_x ot) (\<lambda>x2. Inr (x1 \<le> x2))))"

definition dual_gt :: "parser \<Rightarrow> dual \<Rightarrow> pyval \<Rightarrow> pyerr + bool" where
  "dual_gt P self other =
     bnd (as_dual P other) (\<lambda>ot. bnd (get_x self) (\<lambda>x1. bnd (get_x ot) (\<lambda>x2. Inr (x1 > x2))))"

definition dual_ge :: "parser \<Rightarrow> dual \<Rightarrow> pyval \<Rightarrow> pyerr + bool" where
  "dual_ge P self other =
     bnd (as_dual P other) (\<lambda>ot. bnd (get_x self) (\<lambda>x1. bnd (get_x ot) (\<lambda>x2. Inr (x1 \<ge> x2))))"

subsection \<open>Arithmetic\<close>

text \<open>Float division and \<^verbatim>\<open>math.log\<close>, with what they raise.\<close>

definition fdiv :: "real \<Rightarrow> real \<Rightarrow> pyerr + real" where
  "fdiv u v = (if v = 0 then Inl ZeroDivisionError else Inr (u / v))"

definition py_log :: "real \<Rightarrow> pyerr + real" where
  "py_log a = (if a > 0 then Inr (ln a) else Inl (ValueError ''math domain error''))"

text \<open>\<^verbatim>\<open>a**n\<close> for a float \<open>a\<close> and an integer \<open>n \<ge> 0\<close> (the only exponents the code
  reaches); \<^verbatim>\<open>0.0**0\<close> is \<^verbatim>\<open>1.0\<close> in Python as it is here.\<close>

definition fpow :: "real \<Rightarrow> int \<Rightarrow> real" where
  "fpow a n = a ^ nat n"

definition dual_neg :: "parser \<Rightarrow> dual \<Rightarrow> pyerr + dual" where
  "dual_neg P self =
     bnd (get_x self) (\<lambda>x1. bnd (get_y self) (\<lambda>y1. dual2 P (- x1) (- y1)))"

definition dual_add :: "parser \<Rightarrow> dual \<Rightarrow> pyval \<Rightarrow> pyerr + dual" where
  "dual_add P self other =
     bnd (as_dual P other) (\<lambda>ot.
     bnd (get_x self) (\<lambda>x1. bnd (get_x ot) (\<lambda>x2.
     bnd (get_y self) (\<lambda>y1. bnd (get_y ot) (\<lambda>y2.
       dual2 P (x1 + x2) (y1 + y2))))))"

definition dual_sub :: "parser \<Rightarrow> dual \<Rightarrow> pyval \<Rightarrow> pyerr + dual" where
  "dual_sub P self other =
     bnd (as_dual P other) (\<lambda>ot.
     bnd (get_x self) (\<lambda>x1. bnd (get_x ot) (\<lambda>x2.
     bnd (get_y self) (\<lambda>y1. bnd (get_y ot) (\<lambda>y2.
       dual2 P (x1 - x2) (y1 - y2))))))"

definition dual_mul :: "parser \<Rightarrow> dual \<Rightarrow> pyval \<Rightarrow> pyerr + dual" where
  "dual_mul P self other =
     bnd (as_dual P other) (\<lambda>ot.
     bnd (get_x self) (\<lambda>x1. bnd (get_x ot) (\<lambda>x2.
     bnd (get_y ot) (\<lambda>y2. bnd (get_y self) (\<lambda>y1.
       dual2 P (x1 * x2) (x1 * y2 + y1 * x2))))))"



text \<open>The branch of \<^verbatim>\<open>pow\<close> for an exponent of type float, dual or str:
  \<^verbatim>\<open>d = dual(n).im(); ex = exp(c*log(a)); return dual(ex, ex*(c*b/a+d*log(a)))\<close>\<close>

definition pow_general :: "parser \<Rightarrow> real \<Rightarrow> real \<Rightarrow> real \<Rightarrow> pyval \<Rightarrow> pyerr + dual" where
  "pow_general P a b c n =
     bnd (dual1 P n) (\<lambda>dn. bnd (im dn) (\<lambda>d.
     bnd (py_log a) (\<lambda>l. let ex = exp (c * l) in
     bnd (fdiv (c * b) a) (\<lambda>q.
     bnd (py_log a) (\<lambda>l2.
       dual2 P ex (ex * (q + d * l2)))))))"

text \<open>The method \<^verbatim>\<open>pow\<close>. The branch is chosen by the type of \<open>n\<close>, after the sign of
  the real part of \<^verbatim>\<open>dual(n)\<close>.\<close>

text \<open>\<^verbatim>\<open>type(n) in [float, dual, str]\<close>\<close>

definition type_in_float_dual_str :: "pyval \<Rightarrow> bool" where
  "type_in_float_dual_str n =
     (case n of PFloat r \<Rightarrow> True | PDual e \<Rightarrow> True | PStr s \<Rightarrow> True | _ \<Rightarrow> False)"

definition pow :: "parser \<Rightarrow> dual \<Rightarrow> pyval \<Rightarrow> pyerr + dual" where
  "pow P self n =
     bnd (dual1 P n) (\<lambda>dn. bnd (re dn) (\<lambda>c.
       if c > 0 then
         bnd (get_x self) (\<lambda>a. bnd (get_y self) (\<lambda>b.
           case n of
             PInt k \<Rightarrow> dual2 P (fpow a k) (of_int k * fpow a (k - 1) * b)
           | _ \<Rightarrow>
               if type_in_float_dual_str n then pow_general P a b c n
               else Inl (DualException ''n must be either int, float, dual, or str'')))
       else if c = 0 then dual1 P (PInt 1)
       else Inl (DualException ''n must be non-negative'')))"


text \<open>A value for the parameter \<open>P\<close> at concrete inputs: no string matches.\<close>

definition no_match :: parser where
  "no_match s = None"

subsection \<open>Compound assignment: instances in a store\<close>

text \<open>
  The methods \<^verbatim>\<open>__iadd__\<close>, \<^verbatim>\<open>__isub__\<close>, \<^verbatim>\<open>__imul__\<close>, \<^verbatim>\<open>__itruediv__\<close> and
  \<^verbatim>\<open>__ipow__\<close> assign to the attributes of \<^verbatim>\<open>self\<close> one statement at a time and return
  \<^verbatim>\<open>self\<close>. The right operand may be the very object \<^verbatim>\<open>self\<close> (as in \<^verbatim>\<open>a *= a\<close>), so
  instances live in a store, addressed by references, and each statement reads the
  store as the statements before it have left it. A statement returns the exception
  or its value, together with the store at that point.
\<close>

type_synonym store = "nat \<Rightarrow> dual"

type_synonym 'a cmd = "store \<Rightarrow> (pyerr + 'a) \<times> store"


text \<open>Where \<^verbatim>\<open>other\<close> lives after \<^verbatim>\<open>if not type(other) is dual: other = dual(other)\<close>:
  in the store, or in a new instance that nothing else refers to.\<close>

datatype place = At nat | Local dual

definition ret :: "'a \<Rightarrow> 'a cmd" where
  "ret v s = (Inr v, s)"

definition lift :: "pyerr + 'a \<Rightarrow> 'a cmd" where
  "lift r s = (r, s)"

definition seq :: "'a cmd \<Rightarrow> ('a \<Rightarrow> 'b cmd) \<Rightarrow> 'b cmd" where
  "seq m f s = (case m s of (Inl e, s') \<Rightarrow> (Inl e, s') | (Inr v, s') \<Rightarrow> f v s')"

definition rd_obj :: "place \<Rightarrow> dual cmd" where
  "rd_obj p s = (Inr (case p of At r \<Rightarrow> s r | Local d \<Rightarrow> d), s)"

definition rd_x :: "place \<Rightarrow> real cmd" where
  "rd_x p = seq (rd_obj p) (\<lambda>d. lift (get_x d))"

definition rd_y :: "place \<Rightarrow> real cmd" where
  "rd_y p = seq (rd_obj p) (\<lambda>d. lift (get_y d))"

definition wr_x :: "nat \<Rightarrow> real \<Rightarrow> unit cmd" where
  "wr_x r v s = (Inr (), s(r := Inst (Some v) (attr_y (s r))))"

definition wr_y :: "nat \<Rightarrow> real \<Rightarrow> unit cmd" where
  "wr_y r v s = (Inr (), s(r := Inst (attr_x (s r)) (Some v)))"









subsection \<open>String conversion: \<^verbatim>\<open>__str__\<close>\<close>

text \<open>
  \<^verbatim>\<open>str.format\<close> is Python's own. Its model covers a call with positional arguments only,
  \<^verbatim>\<open>template.format(v0, v1, \<dots>)\<close>, on a template without doubled braces. A replacement
  field \<^verbatim>\<open>{name...:spec}\<close> is resolved by its argument name, the text before the first
  \<^verbatim>\<open>.\<close>, \<^verbatim>\<open>[\<close>, \<^verbatim>\<open>!\<close> or \<^verbatim>\<open>:\<close>: an empty name takes the next positional argument, a
  number takes the argument at that index, and any other name is looked up among the
  keyword arguments, of which there are none, so it raises \<^verbatim>\<open>KeyError\<close>. How a float is
  written out under a format specification is a parameter \<open>R\<close>.
\<close>

type_synonym renderer = "real \<Rightarrow> string \<Rightarrow> string"

definition arg_name :: "string \<Rightarrow> string" where
  "arg_name field = takeWhile (\<lambda>c. c \<notin> set ''.[!:'') field"

definition format_spec :: "string \<Rightarrow> string" where
  "format_spec field = drop 1 (dropWhile (\<lambda>c. c \<noteq> CHR '':'') field)"

definition digit_val :: "char \<Rightarrow> nat" where
  "digit_val c = (of_char c :: nat) - of_char (CHR ''0'')"

definition is_digit :: "char \<Rightarrow> bool" where
  "is_digit c = (c \<in> set ''0123456789'')"

definition index_of :: "string \<Rightarrow> nat" where
  "index_of ds = foldl (\<lambda>n c. 10 * n + digit_val c) 0 ds"

text \<open>One replacement field: the text to insert and the next automatic index.\<close>

definition format_field ::
  "renderer \<Rightarrow> real list \<Rightarrow> nat \<Rightarrow> string \<Rightarrow> pyerr + string \<times> nat" where
  "format_field R args i field =
     (let name = arg_name field in
      if name = [] then
        (if i < length args then Inr (R (args ! i) (format_spec field), Suc i)
         else Inl IndexError)
      else if list_all is_digit name then
        (if index_of name < length args
         then Inr (R (args ! index_of name) (format_spec field), i)
         else Inl IndexError)
      else Inl (KeyError name))"

text \<open>The scan of the template: \<open>cur\<close> is \<open>None\<close> outside a replacement field and holds
  the text of the field read so far inside one.\<close>

fun format_scan ::
  "renderer \<Rightarrow> real list \<Rightarrow> nat \<Rightarrow> string option \<Rightarrow> string \<Rightarrow> pyerr + string" where
  "format_scan R args i None [] = Inr []"
| "format_scan R args i (Some field) [] = Inl (ValueError ''expected } before end of string'')"
| "format_scan R args i None (c # cs) =
     (if c = CHR ''{'' then format_scan R args i (Some []) cs
      else if c = CHR ''}'' then Inl (ValueError ''single } encountered in format string'')
      else bnd (format_scan R args i None cs) (\<lambda>out. Inr (c # out)))"
| "format_scan R args i (Some field) (c # cs) =
     (if c = CHR ''}'' then
        bnd (format_field R args i field) (\<lambda>(txt, j).
        bnd (format_scan R args j None cs) (\<lambda>out. Inr (txt @ out)))
      else format_scan R args i (Some (field @ [c])) cs)"

definition str_format :: "renderer \<Rightarrow> string \<Rightarrow> real list \<Rightarrow> pyerr + string" where
  "str_format R template args = format_scan R args 0 None template"

text \<open>\<^verbatim>\<open>strformat = f"{{self.x}}{{self.y:+}}{indeterminatechar}"\<close>: in the f-string the
  doubled braces are literal braces and \<^verbatim>\<open>{indeterminatechar}\<close> is replaced by its value.\<close>

definition strformat :: string where
  "strformat = ''{self.x}{self.y:+}'' @ [indeterminatechar]"

text \<open>\<^verbatim>\<open>reprformat = f"<dual:{{:.4g}}{{:+.4g}}{indeterminatechar}>"\<close>\<close>

definition reprformat :: string where
  "reprformat = ''<dual:{:.4g}{:+.4g}'' @ [indeterminatechar] @ ''>''"

text \<open>\<^verbatim>\<open>.replace(" ", "")\<close>\<close>

definition remove_spaces :: "string \<Rightarrow> string" where
  "remove_spaces t = filter (\<lambda>c. c \<noteq> CHR '' '') t"

text \<open>\<^verbatim>\<open>return strformat.format(self.x, self.y).replace(" ", "")\<close>\<close>

definition dual_str :: "renderer \<Rightarrow> dual \<Rightarrow> pyerr + string" where
  "dual_str R self =
     bnd (get_x self) (\<lambda>u. bnd (get_y self) (\<lambda>v.
     bnd (str_format R strformat [u, v]) (\<lambda>t. Inr (remove_spaces t))))"

text \<open>\<^verbatim>\<open>return reprformat.format(self.x, self.y).replace(" ", "")\<close>\<close>

definition dual_repr :: "renderer \<Rightarrow> dual \<Rightarrow> pyerr + string" where
  "dual_repr R self =
     bnd (get_x self) (\<lambda>u. bnd (get_y self) (\<lambda>v.
     bnd (str_format R reprformat [u, v]) (\<lambda>t. Inr (remove_spaces t))))"

section \<open>Basic facts\<close>

lemma bnd_Inl [simp]: "bnd (Inl e) f = Inl e"
  by (simp add: bnd_def)

lemma bnd_Inr [simp]: "bnd (Inr v) f = f v"
  by (simp add: bnd_def)

lemma get_x_Inst [simp]:
  "get_x (Inst (Some u) oy) = Inr u" "get_x (Inst None oy) = Inl (AttributeError ''x'')"
  by (simp_all add: get_x_def)

lemma get_y_Inst [simp]:
  "get_y (Inst ox (Some v)) = Inr v" "get_y (Inst ox None) = Inl (AttributeError ''y'')"
  by (simp_all add: get_y_def)

lemma dual2_eq [simp]: "dual2 P u v = Inr (Dual u v)"
  by (simp add: dual2_def dual_init_def num_of_def)

lemma dual1_num [simp]:
  "dual1 P (PInt i) = Inr (Dual (of_int i) 0)"
  "dual1 P (PFloat r) = Inr (Dual r 0)"
  by (simp_all add: dual1_def dual_init_def num_of_def)

lemma dual1_PDual [simp]: "dual1 P (PDual (Dual u v)) = Inr (Dual u v)"
  by (simp add: dual1_def dual_init_def re_def im_def)

lemma dual1_PStr:
  "dual1 P (PStr s) = (case P s of None \<Rightarrow> Inl TypeError | Some (u, v) \<Rightarrow> Inr (Dual u v))"
  by (simp add: dual1_def dual_init_def)

lemma as_dual_simps [simp]:
  "as_dual P (PDual d) = Inr d"
  "as_dual P (PInt i) = Inr (Dual (of_int i) 0)"
  "as_dual P (PFloat r) = Inr (Dual r 0)"
  by (simp_all add: as_dual_def)

lemma val_PDual [simp]: "val_x (PDual d) = get_x d" "val_y (PDual d) = get_y d"
  by (simp_all add: val_x_def val_y_def)


section \<open>Comparison and equality\<close>


text \<open>
  C7. Each of \<open><\<close>, \<open>\<le>\<close>, \<open>>\<close>, \<open>\<ge>\<close> on two dual numbers compares the real components
  only; the indeterminate components play no part. In particular \<open>(1,100) < (2,-100)\<close>.
\<close>

theorem ordering_real_part_only:
  "dual_lt P (Dual x1 y1) (PDual (Dual x2 y2)) = Inr (x1 < x2)
   \<and> dual_le P (Dual x1 y1) (PDual (Dual x2 y2)) = Inr (x1 \<le> x2)
   \<and> dual_gt P (Dual x1 y1) (PDual (Dual x2 y2)) = Inr (x1 > x2)
   \<and> dual_ge P (Dual x1 y1) (PDual (Dual x2 y2)) = Inr (x1 \<ge> x2)
   \<and> dual_lt P (Dual 1 100) (PDual (Dual 2 (- 100))) = Inr True"
  by (simp add: dual_lt_def dual_le_def dual_gt_def dual_ge_def)



lemma dual_mul_Dual [simp]:
  "dual_mul P (Dual x1 y1) (PDual (Dual x2 y2)) = Inr (Dual (x1 * x2) (x1 * y2 + y1 * x2))"
  by (simp add: dual_mul_def)

lemma dual_sub_Dual [simp]:
  "dual_sub P (Dual x1 y1) (PDual (Dual x2 y2)) = Inr (Dual (x1 - x2) (y1 - y2))"
  by (simp add: dual_sub_def)

lemma dual_add_Dual [simp]:
  "dual_add P (Dual x1 y1) (PDual (Dual x2 y2)) = Inr (Dual (x1 + x2) (y1 + y2))"
  by (simp add: dual_add_def)

lemma dual_neg_Dual [simp]: "dual_neg P (Dual x1 y1) = Inr (Dual (- x1) (- y1))"
  by (simp add: dual_neg_def)





section \<open>The power operator\<close>



section \<open>Inverse laws\<close>




section \<open>The method \<^verbatim>\<open>pow\<close>\<close>




lemma pow_general_eq:
  assumes "type_in_float_dual_str n" and "dual1 P n = Inr (Dual c d)"
  shows "pow_general P a b c n =
           (if a > 0
            then Inr (Dual (exp (c * ln a)) (exp (c * ln a) * (c * b / a + d * ln a)))
            else Inl (ValueError ''math domain error''))"
  using assms by (simp add: pow_general_def im_def py_log_def fdiv_def Let_def)

lemma pow_coerced:
  assumes "dual1 P n = Inr (Dual c d)"
  shows "pow P (Dual a b) n =
           (if c > 0 then
              (case n of
                 PInt k \<Rightarrow> Inr (Dual (a ^ nat k) (of_int k * a ^ nat (k - 1) * b))
               | _ \<Rightarrow>
                  if type_in_float_dual_str n then pow_general P a b c n
                  else Inl (DualException ''n must be either int, float, dual, or str''))
            else if c = 0 then Inr (Dual 1 0)
            else Inl (DualException ''n must be non-negative''))"
  using assms by (simp add: pow_def re_def fpow_def split: pyval.split)

lemma dual1_result:
  assumes "type_in_float_dual_str n" and "dual1 P n = Inr dn"
  shows "\<exists>u v. dn = Dual u v"
proof (cases n)
  case (PDual e)
  obtain ox oy where e: "e = Inst ox oy" by (cases e)
  show ?thesis
    using assms(2) unfolding PDual e
    by (cases ox; cases oy) (auto simp add: dual1_def dual_init_def re_def im_def)
next
  case (PStr s)
  then show ?thesis
    using assms(2) by (auto simp add: dual1_PStr split: option.splits)
qed (use assms in \<open>auto simp add: type_in_float_dual_str_def\<close>)

text \<open>
  C10. When the real component of \<open>a\<close> is zero or negative and the exponent is a float,
  a dual or a string whose real part after coercion is positive, \<open>a.pow(n)\<close> raises the
  \<^verbatim>\<open>ValueError\<close> of \<^verbatim>\<open>math.log\<close> (the math domain error): it neither returns a value nor
  raises \<open>DualException\<close>.
\<close>

theorem pow_log_domain_error:
  assumes "x1 \<le> 0"
    and "type_in_float_dual_str n"
    and "dual1 P n = Inr dn" and "re dn = Inr c" and "0 < c"
  shows "pow P (Dual x1 y1) n = Inl (ValueError ''math domain error'')
         \<and> (\<forall>m. pow P (Dual x1 y1) n \<noteq> Inl (DualException m))
         \<and> (\<forall>r. pow P (Dual x1 y1) n \<noteq> Inr r)"
proof -
  obtain u v where dn: "dn = Dual u v"
    using dual1_result [OF assms(2,3)] by blast
  with assms(4) have "u = c"
    by (simp add: re_def)
  with dn assms(3) have co: "dual1 P n = Inr (Dual c v)"
    by simp
  have "pow P (Dual x1 y1) n = pow_general P x1 y1 c n"
    unfolding pow_coerced [OF co] using assms(2,5)
    by (cases n) (simp_all add: type_in_float_dual_str_def)
  also have "\<dots> = Inl (ValueError ''math domain error'')"
    using assms(1) by (simp add: pow_general_eq [OF assms(2) co])
  finally show ?thesis
    by simp
qed

theorem pow_log_domain_error_witness:
  "(- 1 :: real) \<le> 0 \<and> type_in_float_dual_str (PFloat 2)
   \<and> dual1 no_match (PFloat 2) = Inr (Dual 2 0) \<and> re (Dual 2 0) = Inr 2 \<and> (0::real) < 2
   \<and> pow no_match (Dual (- 1) 1) (PFloat 2) = Inl (ValueError ''math domain error'')"
proof -
  have h: "(- 1 :: real) \<le> 0" "type_in_float_dual_str (PFloat 2)"
    "dual1 no_match (PFloat 2) = Inr (Dual 2 0)" "re (Dual 2 0) = Inr 2" "(0::real) < 2"
    by (simp_all add: type_in_float_dual_str_def re_def)
  from pow_log_domain_error [OF h, of 1] h show ?thesis
    by simp
qed







section \<open>String conversion\<close>

lemma arg_name_self_x: "arg_name ''self.x'' = ''self''"
  by (simp add: arg_name_def)

lemma format_field_self_x: "format_field R args i ''self.x'' = Inl (KeyError ''self'')"
  by (simp add: format_field_def arg_name_self_x Let_def is_digit_def)

lemma str_format_strformat: "str_format R strformat args = Inl (KeyError ''self'')"
  by (simp add: str_format_def strformat_def format_field_self_x)

text \<open>
  C9. The canonical string conversion of a dual number is to return the text
  \<open><x>{+|-}<y>\<close> followed by the indeterminate marker, for instance \<open>1+2\<close> and the marker
  for \<open>(1, 2)\<close>, rather than to fail. The code does not: the template names its fields
  \<^verbatim>\<open>self.x\<close> and \<^verbatim>\<open>self.y\<close> while \<^verbatim>\<open>format\<close> is given the two values by position, so the
  lookup of \<^verbatim>\<open>self\<close> raises \<^verbatim>\<open>KeyError\<close> for every dual number.
\<close>

theorem str_raises_key_error:
  "dual_str R (Dual u v) = Inl (KeyError ''self'')
   \<and> dual_str R (Dual 1 2) \<noteq> Inr (''1+2'' @ [indeterminatechar])"
  by (simp add: dual_str_def str_format_strformat)

text \<open>The sibling \<^verbatim>\<open>__repr__\<close>, whose template has positional fields, returns its text.\<close>

lemma repr_returns: "dual_repr R (Dual u v) = Inr (remove_spaces (''<dual:'' @ R u ''.4g'' @ R v ''+.4g'' @ ''w>''))"
  by (simp add: dual_repr_def str_format_def reprformat_def format_field_def arg_name_def format_spec_def indeterminatechar_def)

section \<open>Inequality\<close>

text \<open>
  C6. For dual numbers \<open>a\<close> and \<open>b\<close>, \<open>a != b\<close> is to return the negation of the
  tolerance-based equality. The code does not: \<^verbatim>\<open>__ne__\<close> names its parameter
  \<^verbatim>\<open>otherother\<close> and reads \<^verbatim>\<open>other\<close>, so every call raises \<^verbatim>\<open>NameError\<close>.
\<close>

theorem ne_raises_name_error:
  "dual_ne P (Dual x1 y1) (PDual (Dual x2 y2)) = Inl (NameError ''other'')
   \<and> dual_ne P (Dual 1 2) (PDual (Dual 3 4)) \<noteq> Inr True"
  by (simp add: dual_ne_def)

section \<open>Construction\<close>

text \<open>
  C5. Construction from an input that is not a dual number, not a pair of int or float
  scalars and not a canonical string is to raise the invalid-construction error, and
  never to complete without both components set. The code does not: for a list,
  \<^verbatim>\<open>None\<close>, a \<^verbatim>\<open>bool\<close> or a non-numeric \<open>y\<close> no branch of \<^verbatim>\<open>__init__\<close> is taken and the
  constructor returns an instance without attributes, whose first use raises
  \<^verbatim>\<open>AttributeError\<close>; a string that \<^verbatim>\<open>parse\<close> does not match raises \<^verbatim>\<open>TypeError\<close>; and no
  input at all makes the constructor raise \<open>DualException\<close>.
\<close>

lemma init_never_dual_exception: "dual_init P xv yv \<noteq> Inl (DualException m)"
  by (auto simp add: dual_init_def bnd_def re_def im_def get_x_def get_y_def
      split: pyval.splits option.splits sum.splits)

theorem init_completes_without_attributes:
  "dual_init P (PList [PInt 1, PInt 2]) (PFloat 0) = Inr Blank
   \<and> dual_init P PNone (PFloat 0) = Inr Blank
   \<and> dual_init P (PBool True) (PFloat 0) = Inr Blank
   \<and> dual_init P (PInt 1) (PStr ''a'') = Inr Blank
   \<and> dual_init P (PFloat 1) PNone = Inr Blank
   \<and> get_x Blank = Inl (AttributeError ''x'')
   \<and> dual_init no_match (PStr ''abc'') (PFloat 0) = Inl TypeError
   \<and> dual_init P xv yv \<noteq> Inl (DualException m)"
  by (simp add: init_never_dual_exception) (simp add: dual_init_def num_of_def no_match_def)

section \<open>Compound assignment\<close>

lemma seq_simps [simp]:
  "seq (ret v) f s = f v s"
  "seq (lift (Inr v)) f s = f v s"
  "seq (lift (Inl e)) f s = (Inl e, s)"
  by (simp_all add: seq_def ret_def lift_def)

lemma rd_simps [simp]:
  "seq (rd_obj (At r)) g s = g (s r) s"
  "seq (rd_obj (Local d)) g s = g d s"
  "seq (rd_x (Local d)) f s = seq (lift (get_x d)) f s"
  "seq (rd_y (Local d)) f s = seq (lift (get_y d)) f s"
  "seq (rd_x (At r)) f s = seq (lift (get_x (s r))) f s"
  "seq (rd_y (At r)) f s = seq (lift (get_y (s r))) f s"
  by (simp_all add: seq_def rd_x_def rd_y_def rd_obj_def lift_def split: sum.splits)

lemma wr_simps [simp]:
  "seq (wr_x r v) h s = h () (s(r := Inst (Some v) (attr_y (s r))))"
  "seq (wr_y r v) h s = h () (s(r := Inst (attr_x (s r)) (Some v)))"
  by (simp_all add: seq_def wr_x_def wr_y_def)

lemma ret_apply [simp]: "ret v s = (Inr v, s)"
  by (simp add: ret_def)













lemma dual1_other [simp]:
  "dual1 P (PBool c) = Inr Blank" "dual1 P PNone = Inr Blank" "dual1 P (PList l) = Inr Blank"
  "dual1 P (PDual Blank) = Inl (AttributeError ''x'')"
  by (simp_all add: dual1_def dual_init_def num_of_def re_def)












end
